theory Spec2Isabelle
  imports Main
begin

section \<open>Values carried by requests and responses\<close>

text \<open>
  The server of \<^verbatim>\<open>src/backend/server.js\<close> reads \<^verbatim>\<open>req.body\<close> as parsed by
  \<^verbatim>\<open>express.json()\<close> and answers with \<^verbatim>\<open>res.json(...)\<close>. Both sides are JSON
  values; a property that is absent reads as \<^verbatim>\<open>undefined\<close>. Numbers are kept to the
  integers, which is all the handlers produce themselves.
\<close>

datatype jsval =
    JUndefined
  | JNull
  | JBool bool
  | JNum int
  | JStr string
  | JArr "jsval list"
  | JObj "(string \<times> jsval) list"

text \<open>JavaScript truthiness, the test behind \<^verbatim>\<open>!name\<close> and \<^verbatim>\<open>!email\<close>.\<close>

fun truthy :: "jsval \<Rightarrow> bool" where
  "truthy JUndefined = False"
| "truthy JNull = False"
| "truthy (JBool b) = b"
| "truthy (JNum n) = (n \<noteq> 0)"
| "truthy (JStr s) = (s \<noteq> [])"
| "truthy (JArr xs) = True"
| "truthy (JObj kvs) = True"

text \<open>Reading a property of the body object, as \<^verbatim>\<open>const { name, email } = req.body\<close> does.\<close>

definition get_prop :: "(string \<times> jsval) list \<Rightarrow> string \<Rightarrow> jsval" where
  "get_prop obj k = (case map_of obj k of None \<Rightarrow> JUndefined | Some v \<Rightarrow> v)"

text \<open>
  A request as the handlers see it: the path parameter \<^verbatim>\<open>req.params.id\<close> (always a
  string, taken raw from the URL) and the parsed body object.
\<close>

record request =
  params_id :: string
  body :: "(string \<times> jsval) list"

text \<open>A response: the status code (200 unless \<^verbatim>\<open>res.status\<close> is called) and the JSON value sent.\<close>

record response =
  status :: nat
  json :: jsval

section \<open>The capability the connection offers to handlers\<close>

text \<open>
  \<^verbatim>\<open>db.query(sql, values, callback)\<close> sends one statement: its text and the values bound
  to its \<^verbatim>\<open>?\<close> placeholders, in order. The callback receives either an error (of which
  the handlers read \<^verbatim>\<open>message\<close>), or the header of a write (\<^verbatim>\<open>affectedRows\<close>,
  \<^verbatim>\<open>insertId\<close>), or the rows of a read.
\<close>

record statement =
  sql :: string
  bound :: "jsval list"

record user =
  user_id :: nat
  user_name :: string
  user_email :: string

record header =
  affectedRows :: nat
  insertId :: nat

datatype outcome =
    Failure string
  | Header header
  | Rows "user list"

definition user_json :: "user \<Rightarrow> jsval" where
  "user_json u = JObj [(''id'', JNum (int (user_id u))),
                       (''name'', JStr (user_name u)),
                       (''email'', JStr (user_email u))]"

definition header_json :: "header \<Rightarrow> jsval" where
  "header_json h = JObj [(''affectedRows'', JNum (int (affectedRows h))),
                         (''insertId'', JNum (int (insertId h)))]"

text \<open>The value of \<^verbatim>\<open>result.insertId\<close>; an array of rows has no such property.\<close>

fun result_insertId :: "outcome \<Rightarrow> jsval" where
  "result_insertId (Header h) = JNum (int (insertId h))"
| "result_insertId (Rows us) = JUndefined"
| "result_insertId (Failure m) = JUndefined"

text \<open>The test \<^verbatim>\<open>result.affectedRows === 0\<close>.\<close>

fun no_rows_affected :: "outcome \<Rightarrow> bool" where
  "no_rows_affected (Header h) = (affectedRows h = 0)"
| "no_rows_affected (Rows us) = False"
| "no_rows_affected (Failure m) = False"

text \<open>The value \<^verbatim>\<open>results\<close> handed to \<^verbatim>\<open>res.json\<close> by the list handler.\<close>

fun result_json :: "outcome \<Rightarrow> jsval" where
  "result_json (Rows us) = JArr (map user_json us)"
| "result_json (Header h) = header_json h"
| "result_json (Failure m) = JUndefined"

text \<open>
  What a handler does: it answers, or it sends a statement and goes on in the callback
  with whatever the driver reports. A handler that retried would show a second
  \<open>Query\<close> inside the callback.
\<close>

datatype action =
    Respond response
  | Query statement "outcome \<Rightarrow> action"

text \<open>
  Running a handler against a driver \<open>d\<close> that owns a state of type \<open>'s\<close>. The result is
  the response, the statements sent in order, and the state the driver is left in.
\<close>

primrec run :: "action \<Rightarrow> (statement \<Rightarrow> 's \<Rightarrow> outcome \<times> 's) \<Rightarrow> 's
                 \<Rightarrow> response \<times> statement list \<times> 's" where
  "run (Respond r) d st = (r, [], st)"
| "run (Query q k) d st =
     (case d q st of (out, st') \<Rightarrow>
        (case run (k out) d st' of (r, tr, st'') \<Rightarrow> (r, q # tr, st'')))"

definition answer :: "action \<Rightarrow> (statement \<Rightarrow> 's \<Rightarrow> outcome \<times> 's) \<Rightarrow> 's \<Rightarrow> response" where
  "answer a d st = fst (run a d st)"

definition sent :: "action \<Rightarrow> (statement \<Rightarrow> 's \<Rightarrow> outcome \<times> 's) \<Rightarrow> 's \<Rightarrow> statement list" where
  "sent a d st = fst (snd (run a d st))"

definition after :: "action \<Rightarrow> (statement \<Rightarrow> 's \<Rightarrow> outcome \<times> 's) \<Rightarrow> 's \<Rightarrow> 's" where
  "after a d st = snd (snd (run a d st))"

section \<open>The request handlers\<close>

definition error_body :: "string \<Rightarrow> jsval" where
  "error_body m = JObj [(''error'', JStr m)]"

definition message_body :: "string \<Rightarrow> jsval" where
  "message_body m = JObj [(''message'', JStr m)]"

text \<open>The text of the template literal in \<^verbatim>\<open>createTableIfNotExists\<close> and \<^verbatim>\<open>/create-table\<close>.\<close>

definition create_table_sql :: string where
  "create_table_sql =
     ''\<newline>    CREATE TABLE IF NOT EXISTS users (\<newline>      id INT AUTO_INCREMENT PRIMARY KEY,\<newline>      name VARCHAR(100) NOT NULL,\<newline>      email VARCHAR(100) NOT NULL\<newline>    )\<newline>  ''"

text \<open>\<^verbatim>\<open>app.get('/health', ...)\<close>\<close>

definition health :: "request \<Rightarrow> action" where
  "health req = Respond \<lparr>status = 200, json = JObj [(''status'', JStr ''Backend is running!'')]\<rparr>"

text \<open>\<^verbatim>\<open>app.post('/create-table', ...)\<close>\<close>

definition create_table :: "request \<Rightarrow> action" where
  "create_table req =
     Query \<lparr>sql = create_table_sql, bound = []\<rparr>
       (\<lambda>out. case out of
           Failure m \<Rightarrow> Respond \<lparr>status = 500, json = error_body m\<rparr>
         | _ \<Rightarrow> Respond \<lparr>status = 200, json = message_body ''Users table created successfully!''\<rparr>)"

text \<open>\<^verbatim>\<open>app.post('/add-user', ...)\<close>\<close>

definition add_user :: "request \<Rightarrow> action" where
  "add_user req =
     (let name = get_prop (body req) ''name''; email = get_prop (body req) ''email'' in
      if \<not> truthy name \<or> \<not> truthy email
      then Respond \<lparr>status = 400, json = error_body ''Name and email are required''\<rparr>
      else Query \<lparr>sql = ''INSERT INTO users (name, email) VALUES (?, ?)'', bound = [name, email]\<rparr>
        (\<lambda>out. case out of
            Failure m \<Rightarrow> Respond \<lparr>status = 500, json = error_body m\<rparr>
          | _ \<Rightarrow> Respond \<lparr>status = 200,
                           json = JObj [(''message'', JStr ''User added successfully!''),
                                        (''userId'', result_insertId out)]\<rparr>))"

text \<open>\<^verbatim>\<open>app.get('/users', ...)\<close>\<close>

definition list_users :: "request \<Rightarrow> action" where
  "list_users req =
     Query \<lparr>sql = ''SELECT * FROM users'', bound = []\<rparr>
       (\<lambda>out. case out of
           Failure m \<Rightarrow> Respond \<lparr>status = 500, json = error_body m\<rparr>
         | _ \<Rightarrow> Respond \<lparr>status = 200, json = result_json out\<rparr>)"

text \<open>\<^verbatim>\<open>app.put('/update-user/:id', ...)\<close>\<close>

definition update_user :: "request \<Rightarrow> action" where
  "update_user req =
     (let id = params_id req;
          name = get_prop (body req) ''name''; email = get_prop (body req) ''email'' in
      if \<not> truthy name \<or> \<not> truthy email
      then Respond \<lparr>status = 400, json = error_body ''Name and email are required''\<rparr>
      else Query \<lparr>sql = ''UPDATE users SET name = ?, email = ? WHERE id = ?'',
                  bound = [name, email, JStr id]\<rparr>
        (\<lambda>out. case out of
            Failure m \<Rightarrow> Respond \<lparr>status = 500, json = error_body m\<rparr>
          | _ \<Rightarrow> if no_rows_affected out
                 then Respond \<lparr>status = 404, json = error_body ''User not found''\<rparr>
                 else Respond \<lparr>status = 200, json = message_body ''User updated successfully!''\<rparr>))"

text \<open>\<^verbatim>\<open>app.delete('/delete-user/:id', ...)\<close>\<close>

definition delete_user :: "request \<Rightarrow> action" where
  "delete_user req =
     (let id = params_id req in
      Query \<lparr>sql = ''DELETE FROM users WHERE id = ?'', bound = [JStr id]\<rparr>
        (\<lambda>out. case out of
            Failure m \<Rightarrow> Respond \<lparr>status = 500, json = error_body m\<rparr>
          | _ \<Rightarrow> if no_rows_affected out
                 then Respond \<lparr>status = 404, json = error_body ''User not found''\<rparr>
                 else Respond \<lparr>status = 200, json = message_body ''User deleted successfully!''\<rparr>))"

text \<open>The six routes registered on \<^verbatim>\<open>app\<close>.\<close>

datatype endpoint = Health | CreateTable | AddUser | ListUsers | UpdateUser | DeleteUser

fun handler :: "endpoint \<Rightarrow> request \<Rightarrow> action" where
  "handler Health = health"
| "handler CreateTable = create_table"
| "handler AddUser = add_user"
| "handler ListUsers = list_users"
| "handler UpdateUser = update_user"
| "handler DeleteUser = delete_user"

text \<open>The statement text each route sends, and the values it binds, read off the handlers.\<close>

fun statement_text :: "endpoint \<Rightarrow> string" where
  "statement_text Health = []"
| "statement_text CreateTable = create_table_sql"
| "statement_text AddUser = ''INSERT INTO users (name, email) VALUES (?, ?)''"
| "statement_text ListUsers = ''SELECT * FROM users''"
| "statement_text UpdateUser = ''UPDATE users SET name = ?, email = ? WHERE id = ?''"
| "statement_text DeleteUser = ''DELETE FROM users WHERE id = ?''"

fun bound_values :: "endpoint \<Rightarrow> request \<Rightarrow> jsval list" where
  "bound_values AddUser req = [get_prop (body req) ''name'', get_prop (body req) ''email'']"
| "bound_values UpdateUser req =
     [get_prop (body req) ''name'', get_prop (body req) ''email'', JStr (params_id req)]"
| "bound_values DeleteUser req = [JStr (params_id req)]"
| "bound_values ep req = []"

section \<open>The storage engine behind the driver\<close>

text \<open>
  Modelled from the spec: the storage engine is an external database and none of it is
  in the repository. What follows is the table \<^verbatim>\<open>users\<close> as the schema sent by the
  server and the specification describe it: an auto-assigned integer key that is never
  reused, two text columns, rows listed in insertion order, and a write that reports the
  number of rows its \<^verbatim>\<open>WHERE\<close> clause matched. Only the five statement texts of the
  server are understood.

  How the engine turns a bound value into a column value is left open as a parameter: a
  \<open>binding\<close> says, for a value bound to a text column, the text stored, and for a value
  compared with the key, which keys it equals; either may instead be refused with an
  error message.
\<close>

record table =
  rows :: "user list"
  auto_increment :: nat

record binding =
  where_id :: "jsval \<Rightarrow> string + (nat \<Rightarrow> bool)"
  text_of :: "jsval \<Rightarrow> string + string"

definition fresh_table :: table where
  "fresh_table = \<lparr>rows = [], auto_increment = 1\<rparr>"

definition matched :: "(nat \<Rightarrow> bool) \<Rightarrow> table \<Rightarrow> user list" where
  "matched p t = filter (\<lambda>u. p (user_id u)) (rows t)"

text \<open>
  Modelled from the spec: \<^verbatim>\<open>INSERT INTO users (name, email) VALUES (?, ?)\<close> as the external
  engine runs it. The new row takes the next value of the key counter, which is reported
  as the insert id, and goes after the rows already there.
\<close>

fun insert_into :: "binding \<Rightarrow> jsval list \<Rightarrow> table \<Rightarrow> outcome \<times> table" where
  "insert_into b [n, e] t =
     (case text_of b n of Inl m \<Rightarrow> (Failure m, t) | Inr a \<Rightarrow>
      (case text_of b e of Inl m \<Rightarrow> (Failure m, t) | Inr c \<Rightarrow>
        (Header \<lparr>affectedRows = 1, insertId = auto_increment t\<rparr>,
         \<lparr>rows = rows t @ [\<lparr>user_id = auto_increment t, user_name = a, user_email = c\<rparr>],
          auto_increment = Suc (auto_increment t)\<rparr>)))"
| "insert_into b vs t = (Failure ''Column count doesn't match value count'', t)"

text \<open>
  Modelled from the spec: \<^verbatim>\<open>UPDATE users SET name = ?, email = ? WHERE id = ?\<close> as the
  external engine runs it. The rows whose key the third value equals get the new name and
  email; the affected-row count is the number of rows matched.
\<close>

fun update_set :: "binding \<Rightarrow> jsval list \<Rightarrow> table \<Rightarrow> outcome \<times> table" where
  "update_set b [n, e, i] t =
     (case text_of b n of Inl m \<Rightarrow> (Failure m, t) | Inr a \<Rightarrow>
      (case text_of b e of Inl m \<Rightarrow> (Failure m, t) | Inr c \<Rightarrow>
      (case where_id b i of Inl m \<Rightarrow> (Failure m, t) | Inr p \<Rightarrow>
        (Header \<lparr>affectedRows = length (matched p t), insertId = 0\<rparr>,
         t\<lparr>rows := map (\<lambda>u. if p (user_id u)
                              then u\<lparr>user_name := a, user_email := c\<rparr> else u) (rows t)\<rparr>))))"
| "update_set b vs t = (Failure ''You have an error in your SQL syntax'', t)"

text \<open>
  Modelled from the spec: \<^verbatim>\<open>DELETE FROM users WHERE id = ?\<close> as the external engine runs
  it. The rows whose key the value equals are removed and counted.
\<close>

fun delete_from :: "binding \<Rightarrow> jsval list \<Rightarrow> table \<Rightarrow> outcome \<times> table" where
  "delete_from b [i] t =
     (case where_id b i of Inl m \<Rightarrow> (Failure m, t) | Inr p \<Rightarrow>
        (Header \<lparr>affectedRows = length (matched p t), insertId = 0\<rparr>,
         t\<lparr>rows := filter (\<lambda>u. \<not> p (user_id u)) (rows t)\<rparr>))"
| "delete_from b vs t = (Failure ''You have an error in your SQL syntax'', t)"

text \<open>
  Modelled from the spec: the external engine behind \<^verbatim>\<open>db.query\<close>, told apart by the
  statement text. Creating the table when it exists changes nothing; a read returns the
  rows in insertion order.
\<close>

definition mysql :: "binding \<Rightarrow> statement \<Rightarrow> table \<Rightarrow> outcome \<times> table" where
  "mysql b q t =
     (if sql q = create_table_sql then (Header \<lparr>affectedRows = 0, insertId = 0\<rparr>, t)
      else if sql q = ''INSERT INTO users (name, email) VALUES (?, ?)'' then insert_into b (bound q) t
      else if sql q = ''SELECT * FROM users'' then (Rows (rows t), t)
      else if sql q = ''UPDATE users SET name = ?, email = ? WHERE id = ?'' then update_set b (bound q) t
      else if sql q = ''DELETE FROM users WHERE id = ?'' then delete_from b (bound q) t
      else (Failure ''You have an error in your SQL syntax'', t))"

text \<open>
  One binding to run the model on: a key is matched by its decimal numeral, a text
  column takes a string of at most 100 characters, and everything else is refused.
\<close>

definition digit_val :: "char \<Rightarrow> nat option" where
  "digit_val c = (let n = (of_char c :: nat) in if 48 \<le> n \<and> n \<le> 57 then Some (n - 48) else None)"

fun decimal_from :: "nat \<Rightarrow> string \<Rightarrow> nat option" where
  "decimal_from acc [] = Some acc"
| "decimal_from acc (c # cs) =
     (case digit_val c of None \<Rightarrow> None | Some d \<Rightarrow> decimal_from (10 * acc + d) cs)"

definition decimal :: "string \<Rightarrow> nat option" where
  "decimal s = (if s = [] then None else decimal_from 0 s)"

fun decimal_key :: "jsval \<Rightarrow> string + (nat \<Rightarrow> bool)" where
  "decimal_key (JStr s) =
     (case decimal s of None \<Rightarrow> Inl (''Truncated incorrect DOUBLE value: '' @ s)
                      | Some n \<Rightarrow> Inr (\<lambda>k. k = n))"
| "decimal_key v = Inl ''You have an error in your SQL syntax''"

fun short_text :: "jsval \<Rightarrow> string + string" where
  "short_text (JStr s) = (if length s \<le> 100 then Inr s else Inl ''Data too long for column'')"
| "short_text v = Inl ''You have an error in your SQL syntax''"

definition plain :: binding where
  "plain = \<lparr>where_id = decimal_key, text_of = short_text\<rparr>"

text \<open>A driver with no connection to use: every statement comes back as an error.\<close>

definition unreachable :: "statement \<Rightarrow> 's \<Rightarrow> outcome \<times> 's" where
  "unreachable q st = (Failure ''connect ECONNREFUSED 127.0.0.1:3306'', st)"

section \<open>The connection lifecycle\<close>

text \<open>
  \<^verbatim>\<open>connectWithRetry\<close> creates a connection, asks it to connect and registers two
  callbacks; what happens next is decided by the events the runtime delivers. The state
  records how many connections were created, the delays of the timers set and still
  pending, every delay ever passed to \<^verbatim>\<open>setTimeout\<close>, the lines written to the console,
  and the statements the manager sent itself.
\<close>

record manager =
  attempts :: nat
  timers :: "nat list"
  delays :: "nat list"
  console :: "string list"
  queries :: "statement list"

definition initial :: manager where
  "initial = \<lparr>attempts = 0, timers = [], delays = [], console = [], queries = []\<rparr>"

definition log :: "string \<Rightarrow> manager \<Rightarrow> manager" where
  "log line m = m\<lparr>console := console m @ [line]\<rparr>"

definition setTimeout :: "nat \<Rightarrow> manager \<Rightarrow> manager" where
  "setTimeout ms m = m\<lparr>timers := timers m @ [ms], delays := delays m @ [ms]\<rparr>"

definition connectWithRetry :: "manager \<Rightarrow> manager" where
  "connectWithRetry m = m\<lparr>attempts := Suc (attempts m)\<rparr>"

definition createTableIfNotExists :: "manager \<Rightarrow> manager" where
  "createTableIfNotExists m = m\<lparr>queries := queries m @ [\<lparr>sql = create_table_sql, bound = []\<rparr>]\<rparr>"

text \<open>The callback of \<^verbatim>\<open>db.connect\<close>, with \<^verbatim>\<open>err.message\<close> when there is an error.\<close>

fun connect_callback :: "string option \<Rightarrow> manager \<Rightarrow> manager" where
  "connect_callback (Some msg) m =
     setTimeout 5000 (log (''MySQL not ready, retrying in 5 seconds... '' @ msg) m)"
| "connect_callback None m =
     createTableIfNotExists (log ''Connected to MySQL database!'' m)"

text \<open>The listener of \<^verbatim>\<open>db.on('error', ...)\<close>, with \<^verbatim>\<open>err.code\<close> and \<^verbatim>\<open>err.message\<close>.\<close>

definition error_listener :: "string \<Rightarrow> string \<Rightarrow> manager \<Rightarrow> manager" where
  "error_listener code msg m =
     (let m' = log (''MySQL connection error: '' @ msg) m in
      if code = ''PROTOCOL_CONNECTION_LOST'' then connectWithRetry m' else m')"

text \<open>The callback of the query in \<^verbatim>\<open>createTableIfNotExists\<close>.\<close>

fun table_callback :: "string option \<Rightarrow> manager \<Rightarrow> manager" where
  "table_callback (Some msg) m = log (''Error creating table: '' @ msg) m"
| "table_callback None m = log ''Users table is ready!'' m"

text \<open>A timer set by \<^verbatim>\<open>setTimeout(connectWithRetry, ...)\<close> expires: the oldest one first.\<close>

fun timer_fired :: "manager \<Rightarrow> manager" where
  "timer_fired m =
     (case timers m of [] \<Rightarrow> m | ms # rest \<Rightarrow> connectWithRetry (m\<lparr>timers := rest\<rparr>))"

datatype event =
    ConnectDone "string option"
  | ConnectionError string string
  | TimerFired
  | TableDone "string option"

fun react :: "manager \<Rightarrow> event \<Rightarrow> manager" where
  "react m (ConnectDone err) = connect_callback err m"
| "react m (ConnectionError code msg) = error_listener code msg m"
| "react m TimerFired = timer_fired m"
| "react m (TableDone err) = table_callback err m"

definition process :: "event list \<Rightarrow> manager \<Rightarrow> manager" where
  "process es m = foldl react m es"

text \<open>A run of failed attempts: each failure is reported, then the timer it set expires.\<close>

definition failures :: "string list \<Rightarrow> event list" where
  "failures msgs = concat (map (\<lambda>msg. [ConnectDone (Some msg), TimerFired]) msgs)"

text \<open>The last line of the file, \<^verbatim>\<open>connectWithRetry();\<close>, run once when the process starts.\<close>

definition startup :: manager where
  "startup = connectWithRetry initial"

section \<open>Vocabulary for the properties\<close>

text \<open>The body passes the check \<^verbatim>\<open>if (!name || !email)\<close>.\<close>

definition valid_body :: "request \<Rightarrow> bool" where
  "valid_body req = (truthy (get_prop (body req) ''name'') \<and> truthy (get_prop (body req) ''email''))"

definition statement_of :: "endpoint \<Rightarrow> request \<Rightarrow> statement" where
  "statement_of ep req = \<lparr>sql = statement_text ep, bound = bound_values ep req\<rparr>"

text \<open>The requests of the walk-through in the repository's README, and the table they build.\<close>

definition aryan :: request where
  "aryan = \<lparr>params_id = [], body = [(''name'', JStr ''Aryan''), (''email'', JStr ''aryan@example.com'')]\<rparr>"

definition priya :: request where
  "priya = \<lparr>params_id = [], body = [(''name'', JStr ''Priya''), (''email'', JStr ''priya@example.com'')]\<rparr>"

definition rename_aryan :: request where
  "rename_aryan = \<lparr>params_id = ''1'',
                    body = [(''name'', JStr ''Aryan Kumar''), (''email'', JStr ''aryan.kumar@example.com'')]\<rparr>"

definition target :: "string \<Rightarrow> request" where
  "target i = \<lparr>params_id = i, body = []\<rparr>"

definition two_users :: table where
  "two_users = \<lparr>rows = [\<lparr>user_id = 1, user_name = ''Aryan'', user_email = ''aryan@example.com''\<rparr>,
                         \<lparr>user_id = 2, user_name = ''Priya'', user_email = ''priya@example.com''\<rparr>],
                 auto_increment = 3\<rparr>"

definition one_user :: table where
  "one_user = \<lparr>rows = [\<lparr>user_id = 1, user_name = ''Aryan'', user_email = ''aryan@example.com''\<rparr>],
                auto_increment = 3\<rparr>"

definition rename_nobody :: request where
  "rename_nobody = \<lparr>params_id = ''7'',
                     body = [(''name'', JStr ''Aryan Kumar''), (''email'', JStr ''aryan.kumar@example.com'')]\<rparr>"

definition renamed :: table where
  "renamed = \<lparr>rows = [\<lparr>user_id = 1, user_name = ''Aryan Kumar'',
                        user_email = ''aryan.kumar@example.com''\<rparr>,
                       \<lparr>user_id = 2, user_name = ''Priya'', user_email = ''priya@example.com''\<rparr>],
               auto_increment = 3\<rparr>"

text \<open>The manager once the first connection has succeeded and the table is ready.\<close>

definition connected :: manager where
  "connected = process [ConnectDone None, TableDone None] startup"

section \<open>How each handler runs against a driver\<close>

lemmas handler_defs = health_def create_table_def add_user_def list_users_def
  update_user_def delete_user_def

lemma add_user_run:
  "valid_body req \<Longrightarrow> run (add_user req) d st =
     (case d (statement_of AddUser req) st of
        (Failure m, st') \<Rightarrow> (\<lparr>status = 500, json = error_body m\<rparr>, [statement_of AddUser req], st')
      | (out, st') \<Rightarrow>
          (\<lparr>status = 200, json = JObj [(''message'', JStr ''User added successfully!''),
                                        (''userId'', result_insertId out)]\<rparr>,
           [statement_of AddUser req], st'))"
  by (simp add: add_user_def statement_of_def valid_body_def Let_def
           split: prod.splits outcome.splits)

lemma add_user_invalid:
  "\<not> valid_body req \<Longrightarrow> run (add_user req) d st =
     (\<lparr>status = 400, json = error_body ''Name and email are required''\<rparr>, [], st)"
  by (auto simp add: add_user_def valid_body_def Let_def)

lemma list_users_run:
  "run (list_users req) d st =
     (case d (statement_of ListUsers req) st of
        (Failure m, st') \<Rightarrow> (\<lparr>status = 500, json = error_body m\<rparr>, [statement_of ListUsers req], st')
      | (out, st') \<Rightarrow> (\<lparr>status = 200, json = result_json out\<rparr>, [statement_of ListUsers req], st'))"
  by (simp add: list_users_def statement_of_def Let_def split: prod.splits outcome.splits)

lemma create_table_run:
  "run (create_table req) d st =
     (case d (statement_of CreateTable req) st of
        (Failure m, st') \<Rightarrow> (\<lparr>status = 500, json = error_body m\<rparr>, [statement_of CreateTable req], st')
      | (out, st') \<Rightarrow> (\<lparr>status = 200, json = message_body ''Users table created successfully!''\<rparr>,
                        [statement_of CreateTable req], st'))"
  by (simp add: create_table_def statement_of_def Let_def split: prod.splits outcome.splits)

lemma update_user_run:
  "valid_body req \<Longrightarrow> run (update_user req) d st =
     (case d (statement_of UpdateUser req) st of
        (Failure m, st') \<Rightarrow> (\<lparr>status = 500, json = error_body m\<rparr>, [statement_of UpdateUser req], st')
      | (out, st') \<Rightarrow>
          (if no_rows_affected out
           then \<lparr>status = 404, json = error_body ''User not found''\<rparr>
           else \<lparr>status = 200, json = message_body ''User updated successfully!''\<rparr>,
           [statement_of UpdateUser req], st'))"
  by (simp add: update_user_def statement_of_def valid_body_def Let_def
           split: prod.splits outcome.splits)

lemma update_user_invalid:
  "\<not> valid_body req \<Longrightarrow> run (update_user req) d st =
     (\<lparr>status = 400, json = error_body ''Name and email are required''\<rparr>, [], st)"
  by (auto simp add: update_user_def valid_body_def Let_def)

lemma delete_user_run:
  "run (delete_user req) d st =
     (case d (statement_of DeleteUser req) st of
        (Failure m, st') \<Rightarrow> (\<lparr>status = 500, json = error_body m\<rparr>, [statement_of DeleteUser req], st')
      | (out, st') \<Rightarrow>
          (if no_rows_affected out
           then \<lparr>status = 404, json = error_body ''User not found''\<rparr>
           else \<lparr>status = 200, json = message_body ''User deleted successfully!''\<rparr>,
           [statement_of DeleteUser req], st'))"
  by (simp add: delete_user_def statement_of_def Let_def split: prod.splits outcome.splits)

lemma health_run:
  "run (health req) d st =
     (\<lparr>status = 200, json = JObj [(''status'', JStr ''Backend is running!'')]\<rparr>, [], st)"
  by (simp add: health_def)

text \<open>Every handler sends nothing, or exactly the statement of its route.\<close>

lemma run_handler_cases:
  "(\<exists>r. run (handler ep req) d st = (r, [], st)) \<or>
   (\<exists>r. run (handler ep req) d st = (r, [statement_of ep req], snd (d (statement_of ep req) st)))"
proof (cases ep)
  case Health
  then show ?thesis by (simp add: health_run)
next
  case CreateTable
  then show ?thesis by (simp add: create_table_run split: prod.splits outcome.splits)
next
  case AddUser
  then show ?thesis
    by (cases "valid_body req")
       (simp_all add: add_user_run add_user_invalid split: prod.splits outcome.splits)
next
  case ListUsers
  then show ?thesis by (simp add: list_users_run split: prod.splits outcome.splits)
next
  case UpdateUser
  then show ?thesis
    by (cases "valid_body req")
       (simp_all add: update_user_run update_user_invalid split: prod.splits outcome.splits)
next
  case DeleteUser
  then show ?thesis by (simp add: delete_user_run split: prod.splits outcome.splits)
qed

lemma sent_handler:
  "sent (handler ep req) d st = [] \<or> sent (handler ep req) d st = [statement_of ep req]"
  using run_handler_cases [of ep req d st] by (auto simp add: sent_def)

lemma failure_run:
  assumes "d (statement_of ep req) st = (Failure msg, st')"
    and "sent (handler ep req) d st \<noteq> []"
  shows "run (handler ep req) d st =
           (\<lparr>status = 500, json = error_body msg\<rparr>, [statement_of ep req], st')"
proof (cases ep)
  case Health
  with assms(2) show ?thesis by (simp add: sent_def health_run)
next
  case CreateTable
  with assms(1) show ?thesis by (simp add: create_table_run)
next
  case AddUser
  with assms(2) have "valid_body req"
    by (cases "valid_body req") (simp_all add: sent_def add_user_invalid)
  with AddUser assms(1) show ?thesis by (simp add: add_user_run)
next
  case ListUsers
  with assms(1) show ?thesis by (simp add: list_users_run)
next
  case UpdateUser
  with assms(2) have "valid_body req"
    by (cases "valid_body req") (simp_all add: sent_def update_user_invalid)
  with UpdateUser assms(1) show ?thesis by (simp add: update_user_run)
next
  case DeleteUser
  with assms(1) show ?thesis by (simp add: delete_user_run)
qed

lemma delete_user_status:
  "sent (delete_user req) d st = [statement_of DeleteUser req]
   \<and> status (answer (delete_user req) d st) \<in> {200, 404, 500}"
  by (simp add: delete_user_run sent_def answer_def split: prod.splits outcome.splits)

lemma update_user_status:
  "valid_body req \<Longrightarrow> sent (update_user req) d st = [statement_of UpdateUser req]
   \<and> status (answer (update_user req) d st) \<in> {200, 404, 500}"
  by (simp add: update_user_run sent_def answer_def split: prod.splits outcome.splits)

section \<open>What the engine does with each statement\<close>

lemma mysql_insert:
  "mysql b (statement_of AddUser req) t =
     insert_into b [get_prop (body req) ''name'', get_prop (body req) ''email''] t"
  by (simp add: mysql_def statement_of_def create_table_sql_def)

lemma mysql_select: "mysql b (statement_of ListUsers req) t = (Rows (rows t), t)"
  by (simp add: mysql_def statement_of_def create_table_sql_def)

lemma mysql_update:
  "mysql b (statement_of UpdateUser req) t =
     update_set b [get_prop (body req) ''name'', get_prop (body req) ''email'', JStr (params_id req)] t"
  by (simp add: mysql_def statement_of_def create_table_sql_def)

lemma mysql_delete:
  "mysql b (statement_of DeleteUser req) t = delete_from b [JStr (params_id req)] t"
  by (simp add: mysql_def statement_of_def create_table_sql_def)

lemma unmatched_filter:
  "matched p t = [] \<Longrightarrow> filter (\<lambda>u. \<not> p (user_id u)) (rows t) = rows t"
  by (simp add: matched_def filter_empty_conv)

lemma unmatched_map:
  assumes "matched p t = []"
  shows "t\<lparr>rows := map (\<lambda>u. if p (user_id u) then u\<lparr>user_name := a, user_email := c\<rparr> else u)
                       (rows t)\<rparr> = t"
proof -
  from assms have "\<forall>u \<in> set (rows t). \<not> p (user_id u)"
    by (simp add: matched_def filter_empty_conv)
  then have "map (\<lambda>u. if p (user_id u) then u\<lparr>user_name := a, user_email := c\<rparr> else u) (rows t)
               = rows t"
    by (intro map_idI) simp
  then show ?thesis by simp
qed

lemma matched_after_delete:
  "matched p (t\<lparr>rows := filter (\<lambda>u. \<not> p (user_id u)) (rows t)\<rparr>) = []"
  by (simp add: matched_def filter_empty_conv)

lemma delete_missing:
  assumes "where_id b (JStr (params_id req)) = Inr p" and "matched p t = []"
  shows "run (delete_user req) (mysql b) t =
           (\<lparr>status = 404, json = error_body ''User not found''\<rparr>, [statement_of DeleteUser req], t)"
  using assms by (simp add: delete_user_run mysql_delete unmatched_filter)

lemma delete_present:
  assumes "where_id b (JStr (params_id req)) = Inr p" and "matched p t \<noteq> []"
  shows "run (delete_user req) (mysql b) t =
           (\<lparr>status = 200, json = message_body ''User deleted successfully!''\<rparr>,
            [statement_of DeleteUser req],
            t\<lparr>rows := filter (\<lambda>u. \<not> p (user_id u)) (rows t)\<rparr>)"
  using assms by (simp add: delete_user_run mysql_delete)

lemma update_missing:
  assumes "valid_body req" and "where_id b (JStr (params_id req)) = Inr p" and "matched p t = []"
    and "mysql b (statement_of UpdateUser req) t = (Header h, t')"
  shows "run (update_user req) (mysql b) t =
           (\<lparr>status = 404, json = error_body ''User not found''\<rparr>, [statement_of UpdateUser req], t)"
proof -
  from assms(2-4) have "affectedRows h = 0 \<and> t' = t"
    by (auto simp add: mysql_update unmatched_map split: sum.splits)
  with assms(1,4) show ?thesis by (simp add: update_user_run)
qed

lemma update_present:
  assumes "valid_body req"
    and "text_of b (get_prop (body req) ''name'') = Inr a"
    and "text_of b (get_prop (body req) ''email'') = Inr c"
    and "where_id b (JStr (params_id req)) = Inr p" and "matched p t \<noteq> []"
  shows "run (update_user req) (mysql b) t =
           (\<lparr>status = 200, json = message_body ''User updated successfully!''\<rparr>,
            [statement_of UpdateUser req],
            t\<lparr>rows := map (\<lambda>u. if p (user_id u) then u\<lparr>user_name := a, user_email := c\<rparr> else u)
                           (rows t)\<rparr>)"
  using assms by (simp add: update_user_run mysql_update)

section \<open>How the retry cycle advances\<close>

lemma failed_attempt_step:
  "attempts (timer_fired (connect_callback (Some msg) m)) = Suc (attempts m)
   \<and> delays (timer_fired (connect_callback (Some msg) m)) = delays m @ [5000]
   \<and> length (timers (timer_fired (connect_callback (Some msg) m))) = length (timers m)"
  by (cases "timers m") (simp_all add: setTimeout_def log_def connectWithRetry_def)

lemma process_failures:
  "attempts (process (failures msgs) m) = attempts m + length msgs
   \<and> delays (process (failures msgs) m) = delays m @ replicate (length msgs) 5000
   \<and> length (timers (process (failures msgs) m)) = length (timers m)"
proof (induction msgs arbitrary: m)
  case Nil
  show ?case by (simp add: process_def failures_def)
next
  case (Cons msg msgs)
  have unfold: "process (failures (msg # msgs)) m =
                process (failures msgs) (timer_fired (connect_callback (Some msg) m))"
    by (simp add: process_def failures_def)
  show ?case
    unfolding unfold
    using Cons.IH [of "timer_fired (connect_callback (Some msg) m)"] failed_attempt_step [of msg m]
    by (simp add: replicate_append_same)
qed

lemma update_keeps_ids:
  "map user_id (map (\<lambda>u. if p (user_id u) then u\<lparr>user_name := a, user_email := c\<rparr> else u) xs)
     = map user_id xs"
  by (induction xs) auto

lemma update_keeps_others:
  "filter (\<lambda>u. \<not> p (user_id u))
      (map (\<lambda>u. if p (user_id u) then u\<lparr>user_name := a, user_email := c\<rparr> else u) xs)
     = filter (\<lambda>u. \<not> p (user_id u)) xs"
  by (induction xs) auto

lemma update_sets_target:
  "filter (\<lambda>u. p (user_id u))
      (map (\<lambda>u. if p (user_id u) then u\<lparr>user_name := a, user_email := c\<rparr> else u) xs)
     = map (\<lambda>u. u\<lparr>user_name := a, user_email := c\<rparr>) (filter (\<lambda>u. p (user_id u)) xs)"
  by (induction xs) auto

lemmas scenario_simps = valid_body_def get_prop_def statement_of_def plain_def fresh_table_def
  two_users_def one_user_def renamed_def aryan_def priya_def rename_aryan_def rename_nobody_def target_def
  user_json_def
  error_body_def message_body_def matched_def decimal_def digit_val_def

section \<open>The properties\<close>

text \<open>
  C1. For every request body whose name and email pass the check, when the driver reports
  success for the insert, add-user answers 200 with the message
  \<^verbatim>\<open>User added successfully!\<close> and \<^verbatim>\<open>userId\<close> equal to the insert id the driver reported,
  having sent that one statement. In the README scenario, two inserts into the freshly
  created table are answered with ids 1 and 2, and list-users then answers with the two
  records in insertion order.
\<close>

theorem add_user_returns_insert_id:
  "(valid_body req \<and> d (statement_of AddUser req) st = (Header h, st') \<longrightarrow>
      run (add_user req) d st =
        (\<lparr>status = 200, json = JObj [(''message'', JStr ''User added successfully!''),
                                      (''userId'', JNum (int (insertId h)))]\<rparr>,
         [statement_of AddUser req], st'))
   \<and> run (add_user aryan) (mysql plain) fresh_table =
        (\<lparr>status = 200, json = JObj [(''message'', JStr ''User added successfully!''),
                                      (''userId'', JNum 1)]\<rparr>,
         [statement_of AddUser aryan],
         \<lparr>rows = [\<lparr>user_id = 1, user_name = ''Aryan'', user_email = ''aryan@example.com''\<rparr>],
          auto_increment = 2\<rparr>)
   \<and> run (add_user priya) (mysql plain)
          \<lparr>rows = [\<lparr>user_id = 1, user_name = ''Aryan'', user_email = ''aryan@example.com''\<rparr>],
           auto_increment = 2\<rparr> =
        (\<lparr>status = 200, json = JObj [(''message'', JStr ''User added successfully!''),
                                      (''userId'', JNum 2)]\<rparr>,
         [statement_of AddUser priya], two_users)
   \<and> run (list_users req') (mysql plain) two_users =
        (\<lparr>status = 200,
          json = JArr [JObj [(''id'', JNum 1), (''name'', JStr ''Aryan''),
                             (''email'', JStr ''aryan@example.com'')],
                       JObj [(''id'', JNum 2), (''name'', JStr ''Priya''),
                             (''email'', JStr ''priya@example.com'')]]\<rparr>,
         [statement_of ListUsers req'], two_users)"
proof -
  have general: "valid_body req \<and> d (statement_of AddUser req) st = (Header h, st') \<longrightarrow>
      run (add_user req) d st =
        (\<lparr>status = 200, json = JObj [(''message'', JStr ''User added successfully!''),
                                      (''userId'', JNum (int (insertId h)))]\<rparr>,
         [statement_of AddUser req], st')"
    by (simp add: add_user_run)
  have v1: "valid_body aryan" and v2: "valid_body priya"
    by (simp_all add: scenario_simps)
  have first: "run (add_user aryan) (mysql plain) fresh_table =
        (\<lparr>status = 200, json = JObj [(''message'', JStr ''User added successfully!''),
                                      (''userId'', JNum 1)]\<rparr>,
         [statement_of AddUser aryan],
         \<lparr>rows = [\<lparr>user_id = 1, user_name = ''Aryan'', user_email = ''aryan@example.com''\<rparr>],
          auto_increment = 2\<rparr>)"
    by (simp add: add_user_run [OF v1] mysql_insert) (simp add: scenario_simps)
  have second: "run (add_user priya) (mysql plain)
          \<lparr>rows = [\<lparr>user_id = 1, user_name = ''Aryan'', user_email = ''aryan@example.com''\<rparr>],
           auto_increment = 2\<rparr> =
        (\<lparr>status = 200, json = JObj [(''message'', JStr ''User added successfully!''),
                                      (''userId'', JNum 2)]\<rparr>,
         [statement_of AddUser priya], two_users)"
    by (simp add: add_user_run [OF v2] mysql_insert) (simp add: scenario_simps)
  have third: "run (list_users req') (mysql plain) two_users =
        (\<lparr>status = 200,
          json = JArr [JObj [(''id'', JNum 1), (''name'', JStr ''Aryan''),
                             (''email'', JStr ''aryan@example.com'')],
                       JObj [(''id'', JNum 2), (''name'', JStr ''Priya''),
                             (''email'', JStr ''priya@example.com'')]]\<rparr>,
         [statement_of ListUsers req'], two_users)"
    by (simp add: list_users_run mysql_select) (simp add: two_users_def user_json_def)
  from general first second third show ?thesis by blast
qed

theorem add_user_returns_insert_id_witness:
  "valid_body priya
   \<and> mysql plain (statement_of AddUser priya) two_users =
       (Header \<lparr>affectedRows = 1, insertId = 3\<rparr>,
        \<lparr>rows = rows two_users @ [\<lparr>user_id = 3, user_name = ''Priya'',
                                    user_email = ''priya@example.com''\<rparr>],
         auto_increment = 4\<rparr>)
   \<and> answer (add_user priya) (mysql plain) two_users =
       \<lparr>status = 200, json = JObj [(''message'', JStr ''User added successfully!''),
                                    (''userId'', JNum 3)]\<rparr>"
proof -
  have v: "valid_body priya" by (simp add: scenario_simps)
  have m: "mysql plain (statement_of AddUser priya) two_users =
       (Header \<lparr>affectedRows = 1, insertId = 3\<rparr>,
        \<lparr>rows = rows two_users @ [\<lparr>user_id = 3, user_name = ''Priya'',
                                    user_email = ''priya@example.com''\<rparr>],
         auto_increment = 4\<rparr>)"
    by (simp add: mysql_insert) (simp add: scenario_simps)
  from add_user_returns_insert_id [where req = priya and d = "mysql plain" and st = two_users
      and h = "\<lparr>affectedRows = 1, insertId = 3\<rparr>"] v m
  show ?thesis by (simp add: answer_def)
qed

text \<open>
  C2. For every add-user or update-user request whose body fails the check (name or email
  absent, or an empty string, or both), the handler answers 400 with the message
  \<^verbatim>\<open>Name and email are required\<close>, sends no statement, and leaves the state behind
  the driver, whatever the driver is, as it was.
\<close>

theorem missing_field_rejected:
  assumes "get_prop (body req) ''name'' \<in> {JUndefined, JStr []}
           \<or> get_prop (body req) ''email'' \<in> {JUndefined, JStr []}
           \<or> \<not> valid_body req"
  shows "run (add_user req) d st =
           (\<lparr>status = 400, json = JObj [(''error'', JStr ''Name and email are required'')]\<rparr>, [], st)
       \<and> run (update_user req) d st =
           (\<lparr>status = 400, json = JObj [(''error'', JStr ''Name and email are required'')]\<rparr>, [], st)"
proof -
  from assms have "\<not> valid_body req" by (auto simp add: valid_body_def)
  then show ?thesis by (simp add: add_user_invalid update_user_invalid error_body_def)
qed

theorem missing_field_rejected_witness:
  "get_prop (body \<lparr>params_id = ''1'', body = [(''name'', JStr ''Aryan'')]\<rparr>) ''email'' = JUndefined
   \<and> get_prop (body \<lparr>params_id = ''1'', body = [(''name'', JStr []), (''email'', JStr ''a@b.c'')]\<rparr>)
        ''name'' = JStr []
   \<and> run (add_user \<lparr>params_id = ''1'', body = [(''name'', JStr ''Aryan'')]\<rparr>) (mysql plain) two_users =
       (\<lparr>status = 400, json = JObj [(''error'', JStr ''Name and email are required'')]\<rparr>, [], two_users)
   \<and> run (update_user \<lparr>params_id = ''1'', body = [(''name'', JStr []), (''email'', JStr ''a@b.c'')]\<rparr>)
        (mysql plain) two_users =
       (\<lparr>status = 400, json = JObj [(''error'', JStr ''Name and email are required'')]\<rparr>, [], two_users)"
proof -
  have a: "get_prop (body \<lparr>params_id = ''1'', body = [(''name'', JStr ''Aryan'')]\<rparr>) ''email''
             = JUndefined"
    by (simp add: get_prop_def)
  have b: "get_prop (body \<lparr>params_id = ''1'', body = [(''name'', JStr []), (''email'', JStr ''a@b.c'')]\<rparr>)
             ''name'' = JStr []"
    by (simp add: get_prop_def)
  from a missing_field_rejected [where req = "\<lparr>params_id = ''1'', body = [(''name'', JStr ''Aryan'')]\<rparr>"
      and d = "mysql plain" and st = two_users]
  have c: "run (add_user \<lparr>params_id = ''1'', body = [(''name'', JStr ''Aryan'')]\<rparr>) (mysql plain) two_users =
       (\<lparr>status = 400, json = JObj [(''error'', JStr ''Name and email are required'')]\<rparr>, [], two_users)"
    by simp
  from b missing_field_rejected
      [where req = "\<lparr>params_id = ''1'', body = [(''name'', JStr []), (''email'', JStr ''a@b.c'')]\<rparr>"
      and d = "mysql plain" and st = two_users]
  have e: "run (update_user \<lparr>params_id = ''1'', body = [(''name'', JStr []), (''email'', JStr ''a@b.c'')]\<rparr>)
        (mysql plain) two_users =
       (\<lparr>status = 400, json = JObj [(''error'', JStr ''Name and email are required'')]\<rparr>, [], two_users)"
    by simp
  from a b c e show ?thesis by blast
qed

text \<open>
  C3. Whatever the driver, when it reports success for the update or delete statement, the
  handler answers 404 \<^verbatim>\<open>User not found\<close> if the affected-row count is zero and 200 with a
  confirmation if it is not. On the table, a delete or a successfully executed update whose
  identifier matches no record answers 404 and leaves the table as it was; a delete whose
  identifier matches removes exactly the matching records and answers 200, and the same
  delete sent again answers 404.
\<close>

theorem not_found_is_404:
  "(d (statement_of DeleteUser req) st = (Header h, st') \<longrightarrow>
      run (delete_user req) d st =
        (if affectedRows h = 0
         then \<lparr>status = 404, json = JObj [(''error'', JStr ''User not found'')]\<rparr>
         else \<lparr>status = 200, json = JObj [(''message'', JStr ''User deleted successfully!'')]\<rparr>,
         [statement_of DeleteUser req], st'))
   \<and> (valid_body req \<and> d (statement_of UpdateUser req) st = (Header h, st') \<longrightarrow>
      run (update_user req) d st =
        (if affectedRows h = 0
         then \<lparr>status = 404, json = JObj [(''error'', JStr ''User not found'')]\<rparr>
         else \<lparr>status = 200, json = JObj [(''message'', JStr ''User updated successfully!'')]\<rparr>,
         [statement_of UpdateUser req], st'))
   \<and> (where_id b (JStr (params_id req)) = Inr p \<and> matched p t = [] \<longrightarrow>
      run (delete_user req) (mysql b) t =
        (\<lparr>status = 404, json = JObj [(''error'', JStr ''User not found'')]\<rparr>,
         [statement_of DeleteUser req], t))
   \<and> (where_id b (JStr (params_id req)) = Inr p \<and> matched p t = [] \<and> valid_body req
        \<and> mysql b (statement_of UpdateUser req) t = (Header h', t') \<longrightarrow>
      affectedRows h' = 0 \<and> t' = t \<and>
      run (update_user req) (mysql b) t =
        (\<lparr>status = 404, json = JObj [(''error'', JStr ''User not found'')]\<rparr>,
         [statement_of UpdateUser req], t))
   \<and> (where_id b (JStr (params_id req)) = Inr p \<and> matched p t \<noteq> [] \<longrightarrow>
      run (delete_user req) (mysql b) t =
        (\<lparr>status = 200, json = JObj [(''message'', JStr ''User deleted successfully!'')]\<rparr>,
         [statement_of DeleteUser req],
         t\<lparr>rows := filter (\<lambda>u. \<not> p (user_id u)) (rows t)\<rparr>)
      \<and> run (delete_user req) (mysql b) (t\<lparr>rows := filter (\<lambda>u. \<not> p (user_id u)) (rows t)\<rparr>) =
        (\<lparr>status = 404, json = JObj [(''error'', JStr ''User not found'')]\<rparr>,
         [statement_of DeleteUser req],
         t\<lparr>rows := filter (\<lambda>u. \<not> p (user_id u)) (rows t)\<rparr>))"
proof -
  have del: "d (statement_of DeleteUser req) st = (Header h, st') \<longrightarrow>
      run (delete_user req) d st =
        (if affectedRows h = 0
         then \<lparr>status = 404, json = JObj [(''error'', JStr ''User not found'')]\<rparr>
         else \<lparr>status = 200, json = JObj [(''message'', JStr ''User deleted successfully!'')]\<rparr>,
         [statement_of DeleteUser req], st')"
    by (simp add: delete_user_run error_body_def message_body_def)
  have upd: "valid_body req \<and> d (statement_of UpdateUser req) st = (Header h, st') \<longrightarrow>
      run (update_user req) d st =
        (if affectedRows h = 0
         then \<lparr>status = 404, json = JObj [(''error'', JStr ''User not found'')]\<rparr>
         else \<lparr>status = 200, json = JObj [(''message'', JStr ''User updated successfully!'')]\<rparr>,
         [statement_of UpdateUser req], st')"
    by (simp add: update_user_run error_body_def message_body_def)
  have del_missing: "where_id b (JStr (params_id req)) = Inr p \<and> matched p t = [] \<longrightarrow>
      run (delete_user req) (mysql b) t =
        (\<lparr>status = 404, json = JObj [(''error'', JStr ''User not found'')]\<rparr>,
         [statement_of DeleteUser req], t)"
    using delete_missing [of b req p t] by (simp add: error_body_def)
  have upd_missing: "where_id b (JStr (params_id req)) = Inr p \<and> matched p t = [] \<and> valid_body req
        \<and> mysql b (statement_of UpdateUser req) t = (Header h', t') \<longrightarrow>
      affectedRows h' = 0 \<and> t' = t \<and>
      run (update_user req) (mysql b) t =
        (\<lparr>status = 404, json = JObj [(''error'', JStr ''User not found'')]\<rparr>,
         [statement_of UpdateUser req], t)"
  proof (intro impI, elim conjE)
    assume w: "where_id b (JStr (params_id req)) = Inr p" and m: "matched p t = []"
      and v: "valid_body req" and q: "mysql b (statement_of UpdateUser req) t = (Header h', t')"
    from w m q have "affectedRows h' = 0 \<and> t' = t"
      by (auto simp add: mysql_update unmatched_map split: sum.splits)
    moreover from update_missing [OF v w m q]
    have "run (update_user req) (mysql b) t =
        (\<lparr>status = 404, json = JObj [(''error'', JStr ''User not found'')]\<rparr>,
         [statement_of UpdateUser req], t)"
      by (simp add: error_body_def)
    ultimately show "affectedRows h' = 0 \<and> t' = t \<and>
      run (update_user req) (mysql b) t =
        (\<lparr>status = 404, json = JObj [(''error'', JStr ''User not found'')]\<rparr>,
         [statement_of UpdateUser req], t)"
      by blast
  qed
  have del_present: "where_id b (JStr (params_id req)) = Inr p \<and> matched p t \<noteq> [] \<longrightarrow>
      run (delete_user req) (mysql b) t =
        (\<lparr>status = 200, json = JObj [(''message'', JStr ''User deleted successfully!'')]\<rparr>,
         [statement_of DeleteUser req],
         t\<lparr>rows := filter (\<lambda>u. \<not> p (user_id u)) (rows t)\<rparr>)
      \<and> run (delete_user req) (mysql b) (t\<lparr>rows := filter (\<lambda>u. \<not> p (user_id u)) (rows t)\<rparr>) =
        (\<lparr>status = 404, json = JObj [(''error'', JStr ''User not found'')]\<rparr>,
         [statement_of DeleteUser req],
         t\<lparr>rows := filter (\<lambda>u. \<not> p (user_id u)) (rows t)\<rparr>)"
    using delete_present [of b req p t]
      delete_missing [of b req p "t\<lparr>rows := filter (\<lambda>u. \<not> p (user_id u)) (rows t)\<rparr>",
                      OF _ matched_after_delete]
    by (simp add: error_body_def message_body_def)
  from del upd del_missing upd_missing del_present show ?thesis by blast
qed

theorem not_found_is_404_witness:
  "mysql plain (statement_of DeleteUser (target ''2'')) two_users =
       (Header \<lparr>affectedRows = 1, insertId = 0\<rparr>, one_user)
   \<and> valid_body rename_aryan
   \<and> mysql plain (statement_of UpdateUser rename_nobody) two_users =
       (Header \<lparr>affectedRows = 0, insertId = 0\<rparr>, two_users)
   \<and> where_id plain (JStr ''7'') = Inr (\<lambda>k. k = 7) \<and> matched (\<lambda>k. k = 7) two_users = []
   \<and> where_id plain (JStr ''2'') = Inr (\<lambda>k. k = 2) \<and> matched (\<lambda>k. k = 2) two_users \<noteq> []
   \<and> run (delete_user (target ''2'')) (mysql plain) two_users =
       (\<lparr>status = 200, json = JObj [(''message'', JStr ''User deleted successfully!'')]\<rparr>,
        [statement_of DeleteUser (target ''2'')], one_user)
   \<and> run (delete_user (target ''2'')) (mysql plain) one_user =
       (\<lparr>status = 404, json = JObj [(''error'', JStr ''User not found'')]\<rparr>,
        [statement_of DeleteUser (target ''2'')], one_user)
   \<and> run (delete_user (target ''7'')) (mysql plain) two_users =
       (\<lparr>status = 404, json = JObj [(''error'', JStr ''User not found'')]\<rparr>,
        [statement_of DeleteUser (target ''7'')], two_users)
   \<and> run (update_user rename_nobody) (mysql plain) two_users =
       (\<lparr>status = 404, json = JObj [(''error'', JStr ''User not found'')]\<rparr>,
        [statement_of UpdateUser rename_nobody], two_users)"
proof -
  have d2: "mysql plain (statement_of DeleteUser (target ''2'')) two_users =
       (Header \<lparr>affectedRows = 1, insertId = 0\<rparr>, one_user)"
    by (simp add: mysql_delete) (simp add: scenario_simps)
  have v: "valid_body rename_aryan" and v': "valid_body rename_nobody"
    by (simp_all add: scenario_simps)
  have u7: "mysql plain (statement_of UpdateUser rename_nobody) two_users =
       (Header \<lparr>affectedRows = 0, insertId = 0\<rparr>, two_users)"
    by (simp add: mysql_update) (simp add: scenario_simps)
  have w7: "where_id plain (JStr ''7'') = Inr (\<lambda>k. k = 7)"
    and w7': "where_id plain (JStr (params_id rename_nobody)) = Inr (\<lambda>k. k = 7)"
    and w7'': "where_id plain (JStr (params_id (target ''7''))) = Inr (\<lambda>k. k = 7)"
    and w2: "where_id plain (JStr ''2'') = Inr (\<lambda>k. k = 2)"
    and w2': "where_id plain (JStr (params_id (target ''2''))) = Inr (\<lambda>k. k = 2)"
    by (simp_all add: scenario_simps) (simp_all add: numeral_2_eq_2)
  have m7: "matched (\<lambda>k. k = 7) two_users = []" and m2: "matched (\<lambda>k. k = 2) two_users \<noteq> []"
    by (simp_all add: scenario_simps)
  have shrink: "two_users\<lparr>rows := filter (\<lambda>u. \<not> user_id u = 2) (rows two_users)\<rparr> = one_user"
    by (simp add: scenario_simps)
  from not_found_is_404 [where req = "target ''2''" and b = plain and p = "\<lambda>k. k = 2"
      and t = two_users and h' = "\<lparr>affectedRows = 0, insertId = 0\<rparr>" and t' = two_users
      and d = "mysql plain" and st = two_users
      and h = "\<lparr>affectedRows = 1, insertId = 0\<rparr>" and st' = one_user] w2' m2 shrink
  have r2: "run (delete_user (target ''2'')) (mysql plain) two_users =
       (\<lparr>status = 200, json = JObj [(''message'', JStr ''User deleted successfully!'')]\<rparr>,
        [statement_of DeleteUser (target ''2'')], one_user)"
    and r2': "run (delete_user (target ''2'')) (mysql plain) one_user =
       (\<lparr>status = 404, json = JObj [(''error'', JStr ''User not found'')]\<rparr>,
        [statement_of DeleteUser (target ''2'')], one_user)"
    by simp_all
  from not_found_is_404 [where req = "target ''7''" and b = plain and p = "\<lambda>k. k = 7"
      and t = two_users and h' = "\<lparr>affectedRows = 0, insertId = 0\<rparr>" and t' = two_users
      and d = "mysql plain" and st = two_users
      and h = "\<lparr>affectedRows = 1, insertId = 0\<rparr>" and st' = one_user] w7'' m7
  have r7: "run (delete_user (target ''7'')) (mysql plain) two_users =
       (\<lparr>status = 404, json = JObj [(''error'', JStr ''User not found'')]\<rparr>,
        [statement_of DeleteUser (target ''7'')], two_users)"
    by simp
  from not_found_is_404 [where req = rename_nobody and b = plain and p = "\<lambda>k. k = 7"
      and t = two_users and h' = "\<lparr>affectedRows = 0, insertId = 0\<rparr>" and t' = two_users
      and d = "mysql plain" and st = two_users
      and h = "\<lparr>affectedRows = 1, insertId = 0\<rparr>" and st' = one_user]
    w7' m7 v' u7
  have r7': "run (update_user rename_nobody) (mysql plain) two_users =
       (\<lparr>status = 404, json = JObj [(''error'', JStr ''User not found'')]\<rparr>,
        [statement_of UpdateUser rename_nobody], two_users)"
    by simp
  from d2 v u7 w7 m7 w2 m2 r2 r2' r7 r7' show ?thesis by blast
qed

text \<open>
  C4. For every identifier that matches a record and every body that passes the check and
  is accepted by the engine, the update answers 200 and changes only the name and email of
  the matching records: the identifiers of all records, the records that do not match, the
  order of the rows and the counter of the key are as before, and list-users afterwards
  answers with the new name and email for the matching records and the old contents for the
  others.
\<close>

theorem update_changes_only_target:
  assumes "valid_body req"
    and "text_of b (get_prop (body req) ''name'') = Inr a"
    and "text_of b (get_prop (body req) ''email'') = Inr c"
    and "where_id b (JStr (params_id req)) = Inr p"
    and "matched p t \<noteq> []"
  shows "run (update_user req) (mysql b) t =
           (\<lparr>status = 200, json = JObj [(''message'', JStr ''User updated successfully!'')]\<rparr>,
            [statement_of UpdateUser req],
            t\<lparr>rows := map (\<lambda>u. if p (user_id u) then u\<lparr>user_name := a, user_email := c\<rparr> else u)
                           (rows t)\<rparr>)
       \<and> map user_id (rows (after (update_user req) (mysql b) t)) = map user_id (rows t)
       \<and> filter (\<lambda>u. \<not> p (user_id u)) (rows (after (update_user req) (mysql b) t))
           = filter (\<lambda>u. \<not> p (user_id u)) (rows t)
       \<and> filter (\<lambda>u. p (user_id u)) (rows (after (update_user req) (mysql b) t))
           = map (\<lambda>u. u\<lparr>user_name := a, user_email := c\<rparr>) (matched p t)
       \<and> auto_increment (after (update_user req) (mysql b) t) = auto_increment t
       \<and> run (list_users req') (mysql b) (after (update_user req) (mysql b) t) =
           (\<lparr>status = 200,
             json = JArr (map user_json
                      (map (\<lambda>u. if p (user_id u) then u\<lparr>user_name := a, user_email := c\<rparr> else u)
                           (rows t)))\<rparr>,
            [statement_of ListUsers req'], after (update_user req) (mysql b) t)"
proof -
  let ?t' = "t\<lparr>rows := map (\<lambda>u. if p (user_id u) then u\<lparr>user_name := a, user_email := c\<rparr> else u)
                           (rows t)\<rparr>"
  have ran: "run (update_user req) (mysql b) t =
           (\<lparr>status = 200, json = JObj [(''message'', JStr ''User updated successfully!'')]\<rparr>,
            [statement_of UpdateUser req], ?t')"
    using update_present [OF assms] by (simp add: message_body_def)
  then have aft: "after (update_user req) (mysql b) t = ?t'"
    by (simp add: after_def)
  have ids: "map user_id (rows ?t') = map user_id (rows t)"
    using update_keeps_ids [where p = p and a = a and c = c and xs = "rows t"] by simp
  have others: "filter (\<lambda>u. \<not> p (user_id u)) (rows ?t') = filter (\<lambda>u. \<not> p (user_id u)) (rows t)"
    using update_keeps_others [where p = p and a = a and c = c and xs = "rows t"] by simp
  have targets: "filter (\<lambda>u. p (user_id u)) (rows ?t')
                   = map (\<lambda>u. u\<lparr>user_name := a, user_email := c\<rparr>) (matched p t)"
    using update_sets_target [where p = p and a = a and c = c and xs = "rows t"]
    by (simp add: matched_def)
  have counter: "auto_increment ?t' = auto_increment t"
    by simp
  have listed: "run (list_users req') (mysql b) ?t' =
           (\<lparr>status = 200,
             json = JArr (map user_json
                      (map (\<lambda>u. if p (user_id u) then u\<lparr>user_name := a, user_email := c\<rparr> else u)
                           (rows t)))\<rparr>,
            [statement_of ListUsers req'], ?t')"
    by (simp add: list_users_run mysql_select)
  from ran ids others targets counter listed show ?thesis
    unfolding aft by blast
qed

theorem update_changes_only_target_witness:
  "valid_body rename_aryan
   \<and> text_of plain (get_prop (body rename_aryan) ''name'') = Inr ''Aryan Kumar''
   \<and> text_of plain (get_prop (body rename_aryan) ''email'') = Inr ''aryan.kumar@example.com''
   \<and> where_id plain (JStr (params_id rename_aryan)) = Inr (\<lambda>k. k = 1)
   \<and> matched (\<lambda>k. k = 1) two_users \<noteq> []
   \<and> run (update_user rename_aryan) (mysql plain) two_users =
       (\<lparr>status = 200, json = JObj [(''message'', JStr ''User updated successfully!'')]\<rparr>,
        [statement_of UpdateUser rename_aryan], renamed)
   \<and> answer (list_users (target [])) (mysql plain) renamed =
       \<lparr>status = 200,
        json = JArr [JObj [(''id'', JNum 1), (''name'', JStr ''Aryan Kumar''),
                           (''email'', JStr ''aryan.kumar@example.com'')],
                     JObj [(''id'', JNum 2), (''name'', JStr ''Priya''),
                           (''email'', JStr ''priya@example.com'')]]\<rparr>"
proof -
  have v: "valid_body rename_aryan"
    and n: "text_of plain (get_prop (body rename_aryan) ''name'') = Inr ''Aryan Kumar''"
    and e: "text_of plain (get_prop (body rename_aryan) ''email'') = Inr ''aryan.kumar@example.com''"
    and w: "where_id plain (JStr (params_id rename_aryan)) = Inr (\<lambda>k. k = 1)"
    and m: "matched (\<lambda>k. k = 1) two_users \<noteq> []"
    by (simp_all add: scenario_simps)
  have grow: "two_users\<lparr>rows := map (\<lambda>u. if user_id u = 1
        then u\<lparr>user_name := ''Aryan Kumar'', user_email := ''aryan.kumar@example.com''\<rparr> else u)
        (rows two_users)\<rparr> = renamed"
    by (simp add: scenario_simps)
  note inst = update_changes_only_target [OF v n e w m, of "target []"]
  from inst [THEN conjunct1]
  have r: "run (update_user rename_aryan) (mysql plain) two_users =
       (\<lparr>status = 200, json = JObj [(''message'', JStr ''User updated successfully!'')]\<rparr>,
        [statement_of UpdateUser rename_aryan], renamed)"
    unfolding grow .
  then have aft: "after (update_user rename_aryan) (mysql plain) two_users = renamed"
    by (simp add: after_def)
  from inst [THEN conjunct2, THEN conjunct2, THEN conjunct2, THEN conjunct2, THEN conjunct2]
  have "answer (list_users (target [])) (mysql plain) renamed =
       \<lparr>status = 200,
        json = JArr (map user_json (map (\<lambda>u. if user_id u = 1
          then u\<lparr>user_name := ''Aryan Kumar'', user_email := ''aryan.kumar@example.com''\<rparr> else u)
          (rows two_users)))\<rparr>"
    unfolding aft by (simp add: answer_def)
  then have l: "answer (list_users (target [])) (mysql plain) renamed =
       \<lparr>status = 200,
        json = JArr [JObj [(''id'', JNum 1), (''name'', JStr ''Aryan Kumar''),
                           (''email'', JStr ''aryan.kumar@example.com'')],
                     JObj [(''id'', JNum 2), (''name'', JStr ''Priya''),
                           (''email'', JStr ''priya@example.com'')]]\<rparr>"
    by (simp add: two_users_def user_json_def)
  from v n e w m r l show ?thesis by blast
qed

text \<open>
  C5. The health check answers 200 with the status string \<^verbatim>\<open>Backend is running!\<close> for every
  request, every driver and every state behind it, sends no statement and leaves that state
  as it was; the state of the connection manager is not among its inputs.
\<close>

theorem health_unconditional:
  "run (health req) d st =
     (\<lparr>status = 200, json = JObj [(''status'', JStr ''Backend is running!'')]\<rparr>, [], st)"
  by (simp add: health_def)

theorem health_unconditional_witness:
  "run (health (target [])) unreachable startup =
     (\<lparr>status = 200, json = JObj [(''status'', JStr ''Backend is running!'')]\<rparr>, [], startup)
   \<and> attempts startup = 1 \<and> queries startup = []"
  using health_unconditional [of "target []" unreachable startup]
  by (simp add: startup_def initial_def connectWithRetry_def)

text \<open>
  C6. A failed connection attempt sets one timer of 5000 milliseconds for
  \<^verbatim>\<open>connectWithRetry\<close>, whatever the number of attempts made so far and whatever the
  error, and the timer's expiry makes the next attempt. So after any number \<open>n\<close> of
  consecutive failures, from startup or from any other state, \<open>n + 1\<close> attempts have been
  made and the delays set were \<open>n\<close> times 5000: no bound on the attempts, no growth of the
  delay and no variation in it.
\<close>

theorem retry_forever:
  "timers (connect_callback (Some msg) m) = timers m @ [5000]
   \<and> attempts (connect_callback (Some msg) m) = attempts m
   \<and> attempts (timer_fired (connect_callback (Some msg) m)) = attempts m + 1
   \<and> attempts (process (failures msgs) (connectWithRetry m)) = attempts m + length msgs + 1
   \<and> delays (process (failures msgs) (connectWithRetry m)) = delays m @ replicate (length msgs) 5000
   \<and> attempts (process (failures msgs) startup) = length msgs + 1
   \<and> delays (process (failures msgs) startup) = replicate (length msgs) 5000
   \<and> timers (process (failures msgs) startup) = []"
proof -
  have one: "timers (connect_callback (Some msg) m) = timers m @ [5000]
             \<and> attempts (connect_callback (Some msg) m) = attempts m"
    by (simp add: setTimeout_def log_def)
  have next_attempt: "attempts (timer_fired (connect_callback (Some msg) m)) = attempts m + 1"
    using failed_attempt_step [of msg m] by simp
  have many: "attempts (process (failures msgs) (connectWithRetry m)) = attempts m + length msgs + 1
      \<and> delays (process (failures msgs) (connectWithRetry m)) = delays m @ replicate (length msgs) 5000"
    using process_failures [of msgs "connectWithRetry m"] by (simp add: connectWithRetry_def)
  have from_start: "attempts (process (failures msgs) startup) = length msgs + 1
      \<and> delays (process (failures msgs) startup) = replicate (length msgs) 5000
      \<and> timers (process (failures msgs) startup) = []"
    using process_failures [of msgs startup]
    by (simp add: startup_def connectWithRetry_def initial_def)
  from one next_attempt many from_start show ?thesis by blast
qed

theorem retry_forever_witness:
  "attempts (process (failures [''ECONNREFUSED'', ''ECONNREFUSED'', ''ETIMEDOUT'']) startup) = 4
   \<and> delays (process (failures [''ECONNREFUSED'', ''ECONNREFUSED'', ''ETIMEDOUT'']) startup)
       = [5000, 5000, 5000]
   \<and> timers (connect_callback (Some ''ECONNREFUSED'') startup) = [5000]"
  using retry_forever [of "''ECONNREFUSED''" startup "[''ECONNREFUSED'', ''ECONNREFUSED'', ''ETIMEDOUT'']"]
  by (simp add: startup_def connectWithRetry_def initial_def numeral_3_eq_3)

text \<open>
  C7. In any state of the manager, so also once the first connection has succeeded, an
  error event whose code is \<^verbatim>\<open>PROTOCOL_CONNECTION_LOST\<close> is logged and followed by a call of
  \<^verbatim>\<open>connectWithRetry\<close>, the function that startup calls, and the failures that follow are
  retried as at startup; an error event with any other code is logged and changes nothing
  else.
\<close>

theorem connection_lost_reconnects:
  "react m (ConnectionError ''PROTOCOL_CONNECTION_LOST'' msg) =
     connectWithRetry (log (''MySQL connection error: '' @ msg) m)
   \<and> startup = connectWithRetry initial
   \<and> attempts (process (ConnectionError ''PROTOCOL_CONNECTION_LOST'' msg # failures msgs) m)
       = attempts m + length msgs + 1
   \<and> delays (process (ConnectionError ''PROTOCOL_CONNECTION_LOST'' msg # failures msgs) m)
       = delays m @ replicate (length msgs) 5000
   \<and> (code \<noteq> ''PROTOCOL_CONNECTION_LOST'' \<longrightarrow>
        react m (ConnectionError code msg) = m\<lparr>console := console m @ [''MySQL connection error: '' @ msg]\<rparr>)"
proof -
  let ?m = "log (''MySQL connection error: '' @ msg) m"
  have lost: "react m (ConnectionError ''PROTOCOL_CONNECTION_LOST'' msg) = connectWithRetry ?m"
    by (simp add: error_listener_def Let_def)
  have unfold: "process (ConnectionError ''PROTOCOL_CONNECTION_LOST'' msg # failures msgs) m
                  = process (failures msgs) (connectWithRetry ?m)"
    using lost by (simp add: process_def)
  have again: "attempts (process (ConnectionError ''PROTOCOL_CONNECTION_LOST'' msg # failures msgs) m)
       = attempts m + length msgs + 1
     \<and> delays (process (ConnectionError ''PROTOCOL_CONNECTION_LOST'' msg # failures msgs) m)
       = delays m @ replicate (length msgs) 5000"
    unfolding unfold using process_failures [of msgs "connectWithRetry ?m"]
    by (simp add: connectWithRetry_def log_def)
  have other: "code \<noteq> ''PROTOCOL_CONNECTION_LOST'' \<longrightarrow>
        react m (ConnectionError code msg) = m\<lparr>console := console m @ [''MySQL connection error: '' @ msg]\<rparr>"
    by (simp add: error_listener_def Let_def log_def)
  from lost again other show ?thesis by (simp add: startup_def)
qed

theorem connection_lost_reconnects_witness:
  "''ECONNRESET'' \<noteq> ''PROTOCOL_CONNECTION_LOST''
   \<and> attempts connected = 1
   \<and> attempts (react connected (ConnectionError ''PROTOCOL_CONNECTION_LOST'' ''Connection lost'')) = 2
   \<and> attempts (react connected (ConnectionError ''ECONNRESET'' ''read ECONNRESET'')) = 1
   \<and> console (react connected (ConnectionError ''ECONNRESET'' ''read ECONNRESET'')) =
       [''Connected to MySQL database!'', ''Users table is ready!'',
        ''MySQL connection error: read ECONNRESET'']"
proof -
  have c: "''ECONNRESET'' \<noteq> ''PROTOCOL_CONNECTION_LOST''" by simp
  have a: "attempts connected = 1"
    and l: "console connected = [''Connected to MySQL database!'', ''Users table is ready!'']"
    by (simp_all add: connected_def process_def startup_def initial_def connectWithRetry_def
          createTableIfNotExists_def log_def)
  from connection_lost_reconnects [where m = connected and msg = "''Connection lost''"
      and msgs = "[]" and code = "''ECONNRESET''"] a
  have r: "attempts (react connected (ConnectionError ''PROTOCOL_CONNECTION_LOST'' ''Connection lost'')) = 2"
    by (simp add: connectWithRetry_def log_def)
  from connection_lost_reconnects [where m = connected and msg = "''read ECONNRESET''"
      and msgs = "[]" and code = "''ECONNRESET''"] c a l
  have o: "attempts (react connected (ConnectionError ''ECONNRESET'' ''read ECONNRESET'')) = 1
     \<and> console (react connected (ConnectionError ''ECONNRESET'' ''read ECONNRESET'')) =
       [''Connected to MySQL database!'', ''Users table is ready!'',
        ''MySQL connection error: read ECONNRESET'']"
    by simp
  from c a r o show ?thesis by blast
qed

text \<open>
  C8. For every route, request, driver and state, the handler sends nothing or exactly one
  statement whose text is the constant of its route, the same for every request, and whose
  bound values are the name, the email and the identifier of the request as the route uses
  them: the values of the request reach the engine as bound values only.
\<close>

theorem statement_text_fixed:
  "(sent (handler ep req) d st = [] \<or>
    sent (handler ep req) d st = [\<lparr>sql = statement_text ep, bound = bound_values ep req\<rparr>])
   \<and> set (map sql (sent (handler ep req) d st)) \<union> set (map sql (sent (handler ep req') d' st'))
       \<subseteq> {statement_text ep}
   \<and> statement_text AddUser = ''INSERT INTO users (name, email) VALUES (?, ?)''
   \<and> statement_text ListUsers = ''SELECT * FROM users''
   \<and> statement_text UpdateUser = ''UPDATE users SET name = ?, email = ? WHERE id = ?''
   \<and> statement_text DeleteUser = ''DELETE FROM users WHERE id = ?''
   \<and> statement_text CreateTable = create_table_sql"
  using sent_handler [of ep req d st] sent_handler [of ep req' d' st']
  by (auto simp add: statement_of_def)

theorem statement_text_fixed_witness:
  "sent (handler DeleteUser (target ''1 OR 1=1'')) (mysql plain) two_users =
     [\<lparr>sql = ''DELETE FROM users WHERE id = ?'', bound = [JStr ''1 OR 1=1'']\<rparr>]
   \<and> sent (handler UpdateUser rename_aryan) (mysql plain) two_users =
     [\<lparr>sql = ''UPDATE users SET name = ?, email = ? WHERE id = ?'',
       bound = [JStr ''Aryan Kumar'', JStr ''aryan.kumar@example.com'', JStr ''1'']\<rparr>]
   \<and> sent (handler AddUser (target [])) (mysql plain) two_users = []"
proof -
  have d: "sent (handler DeleteUser (target ''1 OR 1=1'')) (mysql plain) two_users \<noteq> []"
    by (simp add: sent_def delete_user_run split: prod.splits outcome.splits)
  have u: "sent (handler UpdateUser rename_aryan) (mysql plain) two_users \<noteq> []"
    by (simp add: sent_def update_user_run valid_body_def get_prop_def rename_aryan_def
          split: prod.splits outcome.splits)
  have a: "sent (handler AddUser (target [])) (mysql plain) two_users = []"
    by (simp add: sent_def add_user_invalid valid_body_def get_prop_def target_def)
  from statement_text_fixed [where ep = DeleteUser and req = "target ''1 OR 1=1''"
      and d = "mysql plain" and st = two_users and req' = "target []" and d' = "mysql plain"
      and st' = two_users] d
  have d': "sent (handler DeleteUser (target ''1 OR 1=1'')) (mysql plain) two_users =
     [\<lparr>sql = ''DELETE FROM users WHERE id = ?'', bound = [JStr ''1 OR 1=1'']\<rparr>]"
    by (simp add: target_def)
  from statement_text_fixed [where ep = UpdateUser and req = rename_aryan
      and d = "mysql plain" and st = two_users and req' = "target []" and d' = "mysql plain"
      and st' = two_users] u
  have u': "sent (handler UpdateUser rename_aryan) (mysql plain) two_users =
     [\<lparr>sql = ''UPDATE users SET name = ?, email = ? WHERE id = ?'',
       bound = [JStr ''Aryan Kumar'', JStr ''aryan.kumar@example.com'', JStr ''1'']\<rparr>]"
    by (simp add: rename_aryan_def get_prop_def)
  from d' u' a show ?thesis by blast
qed

text \<open>
  C9. For every route and request, when a statement is sent and the driver reports an error
  for it, the handler answers 500 with the driver's message in the \<^verbatim>\<open>error\<close> field, and
  that statement is the only one sent: the failure becomes a response and is not retried.
\<close>

theorem driver_failure_is_500:
  assumes "d (statement_of ep req) st = (Failure msg, st')"
    and "sent (handler ep req) d st \<noteq> []"
  shows "run (handler ep req) d st =
           (\<lparr>status = 500, json = JObj [(''error'', JStr msg)]\<rparr>, [statement_of ep req], st')"
  using failure_run [OF assms] by (simp add: error_body_def)

theorem driver_failure_is_500_witness:
  "unreachable (statement_of ListUsers (target [])) connected =
     (Failure ''connect ECONNREFUSED 127.0.0.1:3306'', connected)
   \<and> sent (handler ListUsers (target [])) unreachable connected \<noteq> []
   \<and> run (handler ListUsers (target [])) unreachable connected =
       (\<lparr>status = 500, json = JObj [(''error'', JStr ''connect ECONNREFUSED 127.0.0.1:3306'')]\<rparr>,
        [\<lparr>sql = ''SELECT * FROM users'', bound = []\<rparr>], connected)"
proof -
  have f: "unreachable (statement_of ListUsers (target [])) connected =
     (Failure ''connect ECONNREFUSED 127.0.0.1:3306'', connected)"
    by (simp add: unreachable_def)
  have s: "sent (handler ListUsers (target [])) unreachable connected \<noteq> []"
    by (simp add: sent_def list_users_run split: prod.splits outcome.splits)
  from driver_failure_is_500 [OF f s] f s show ?thesis
    by (simp add: statement_of_def)
qed

text \<open>
  C10, as stated: for every path identifier the update handler binds the raw string into its
  statement and answers 200, 404 or 500. With an empty body it answers 400 and binds
  nothing.
\<close>

theorem raw_id_bound_counterexample:
  "status (answer (update_user \<lparr>params_id = ''abc'', body = []\<rparr>) (mysql plain) two_users)
     \<notin> {200, 404, 500}
   \<and> sent (update_user \<lparr>params_id = ''abc'', body = []\<rparr>) (mysql plain) two_users = []"
  by (simp add: update_user_def answer_def sent_def get_prop_def Let_def)

text \<open>
  C10, amended. Neither handler examines the path identifier. For every identifier string,
  delete sends its statement with the raw string as the bound value and answers 200, 404 or
  500. Update, when the body passes the check, sends its statement with the raw string as
  its third bound value and answers 200, 404 or 500; when the body fails the check it
  answers 400 and sends nothing, whatever the identifier.
\<close>

theorem raw_id_bound:
  "sent (delete_user req) d st =
      [\<lparr>sql = ''DELETE FROM users WHERE id = ?'', bound = [JStr (params_id req)]\<rparr>]
   \<and> status (answer (delete_user req) d st) \<in> {200, 404, 500}
   \<and> (valid_body req \<longrightarrow>
        sent (update_user req) d st =
          [\<lparr>sql = ''UPDATE users SET name = ?, email = ? WHERE id = ?'',
            bound = [get_prop (body req) ''name'', get_prop (body req) ''email'',
                     JStr (params_id req)]\<rparr>]
        \<and> status (answer (update_user req) d st) \<in> {200, 404, 500})
   \<and> (\<not> valid_body req \<longrightarrow>
        sent (update_user req) d st = [] \<and> status (answer (update_user req) d st) = 400)"
  using delete_user_status [of req d st] update_user_status [of req d st]
    update_user_invalid [of req d st]
  by (simp add: sent_def answer_def statement_of_def)

theorem raw_id_bound_witness:
  "valid_body \<lparr>params_id = ''abc'', body = body rename_aryan\<rparr>
   \<and> \<not> valid_body (target ''abc'')
   \<and> run (delete_user (target ''abc'')) (mysql plain) two_users =
       (\<lparr>status = 500, json = JObj [(''error'', JStr ''Truncated incorrect DOUBLE value: abc'')]\<rparr>,
        [\<lparr>sql = ''DELETE FROM users WHERE id = ?'', bound = [JStr ''abc'']\<rparr>], two_users)
   \<and> sent (update_user \<lparr>params_id = ''abc'', body = body rename_aryan\<rparr>) (mysql plain) two_users =
       [\<lparr>sql = ''UPDATE users SET name = ?, email = ? WHERE id = ?'',
         bound = [JStr ''Aryan Kumar'', JStr ''aryan.kumar@example.com'', JStr ''abc'']\<rparr>]
   \<and> status (answer (update_user \<lparr>params_id = ''abc'', body = body rename_aryan\<rparr>)
        (mysql plain) two_users) \<in> {200, 404, 500}
   \<and> status (answer (update_user (target ''abc'')) (mysql plain) two_users) = 400"
proof -
  have v: "valid_body \<lparr>params_id = ''abc'', body = body rename_aryan\<rparr>"
    and n: "\<not> valid_body (target ''abc'')"
    by (simp_all add: scenario_simps)
  have r: "run (delete_user (target ''abc'')) (mysql plain) two_users =
       (\<lparr>status = 500, json = JObj [(''error'', JStr ''Truncated incorrect DOUBLE value: abc'')]\<rparr>,
        [\<lparr>sql = ''DELETE FROM users WHERE id = ?'', bound = [JStr ''abc'']\<rparr>], two_users)"
    by (simp add: delete_user_run mysql_delete) (simp add: scenario_simps)
  from raw_id_bound [where req = "\<lparr>params_id = ''abc'', body = body rename_aryan\<rparr>"
      and d = "mysql plain" and st = two_users] v
  have u: "sent (update_user \<lparr>params_id = ''abc'', body = body rename_aryan\<rparr>) (mysql plain) two_users =
       [\<lparr>sql = ''UPDATE users SET name = ?, email = ? WHERE id = ?'',
         bound = [JStr ''Aryan Kumar'', JStr ''aryan.kumar@example.com'', JStr ''abc'']\<rparr>]
     \<and> status (answer (update_user \<lparr>params_id = ''abc'', body = body rename_aryan\<rparr>)
        (mysql plain) two_users) \<in> {200, 404, 500}"
    by (simp add: rename_aryan_def get_prop_def)
  from raw_id_bound [where req = "target ''abc''" and d = "mysql plain" and st = two_users] n
  have i: "status (answer (update_user (target ''abc'')) (mysql plain) two_users) = 400"
    by simp
  from v n r u i show ?thesis by blast
qed

end
